theory Spec2Isabelle
  imports Main
begin

section \<open>The PostgreSQL JSON / JSONB column types (dialects/postgresql/json.py)\<close>

text \<open>
  A shallow embedding of \<^verbatim>\<open>lib/sqlalchemy/dialects/postgresql/json.py\<close>: the four
  operator constants of the module, the comparator of \<^verbatim>\<open>JSON\<close> (\<^verbatim>\<open>astext\<close>,
  \<^verbatim>\<open>_setup_getitem\<close>), the bind and result processors, and the comparator of
  \<^verbatim>\<open>JSONB\<close> (\<^verbatim>\<open>_adapt_expression\<close> and the five predicate builders).
  Exceptions are values of the type \<open>error\<close>; a function that may raise returns
  \<open>error + 'a\<close>, with \<open>Inl\<close> carrying the exception.
\<close>

subsection \<open>Python values and exceptions\<close>

text \<open>
  The Python values that reach this module as index keys, operands and bound parameters.
  \<open>PNull\<close> is an instance of \<^verbatim>\<open>elements.Null\<close>, the SQL NULL construct; \<open>PNone\<close> is
  Python's \<^verbatim>\<open>None\<close>. A float is kept as an opaque token: nothing in this module
  inspects one.
\<close>

datatype pyval =
    PNone
  | PBool bool
  | PInt int
  | PFloat nat
  | PStr string
  | PList "pyval list"
  | PTuple "pyval list"
  | PDict "(pyval \<times> pyval) list"
  | PNull

datatype error =
    NameError string
  | AssertionError
  | AttributeError string
  | TypeError string
  | ValueError string

subsection \<open>Operators\<close>

text \<open>
  An instance of \<^verbatim>\<open>operators.custom_op\<close>, with the attributes the module sets at
  lines 22 to 39 and reads at line 298.
  \<open>oid\<close> is the identity of the object: Python's \<^verbatim>\<open>is\<close> compares identities, not
  contents, and \<^verbatim>\<open>astext\<close> tests \<^verbatim>\<open>against is PATHIDX\<close>.
\<close>

record custom_op =
  oid :: nat
  opstring :: string
  precedence :: int
  natural_self_precedent :: bool

text \<open>Lines 22 to 39: the four module-level operator objects, in creation order.\<close>

definition INDEX :: custom_op where
  "INDEX = \<lparr>oid = 0, opstring = ''->'', precedence = 5, natural_self_precedent = True\<rparr>"

definition PATHIDX :: custom_op where
  "PATHIDX = \<lparr>oid = 1, opstring = ''#>'', precedence = 5, natural_self_precedent = True\<rparr>"

definition ASTEXT :: custom_op where
  "ASTEXT = \<lparr>oid = 2, opstring = ''->>'', precedence = 5, natural_self_precedent = True\<rparr>"

definition ASTEXT_PATHIDX :: custom_op where
  "ASTEXT_PATHIDX =
     \<lparr>oid = 3, opstring = ''#>>'', precedence = 5, natural_self_precedent = True\<rparr>"

text \<open>
  An operator handed to a comparator is either a \<^verbatim>\<open>custom_op\<close> instance or one of the
  plain operator functions of \<^verbatim>\<open>sqlalchemy.sql.operators\<close> (\<^verbatim>\<open>add\<close>, \<^verbatim>\<open>concat_op\<close>,
  ...), named here by its function name.
\<close>

datatype operator = CustomOp custom_op | BuiltinOp string

text \<open>\<^verbatim>\<open>op is K\<close> for a module constant \<open>K\<close>: identity of objects.\<close>

fun is_op :: "operator \<Rightarrow> custom_op \<Rightarrow> bool" where
  "is_op (CustomOp c) k = (oid c = oid k)"
| "is_op (BuiltinOp f) k = False"

subsection \<open>Types and expressions\<close>

text \<open>
  The column types. \<open>JSON\<close> and \<open>JSONB\<close> are the two classes of the module, each an
  instance with its \<^verbatim>\<open>none_as_null\<close> flag and its \<^verbatim>\<open>index_map\<close>; \<open>Text\<close>, \<open>Boolean\<close>
  and \<open>NullType\<close> are the types of \<^verbatim>\<open>sqltypes\<close> the module names or meets. An
  \<^verbatim>\<open>index_map\<close> is kept as the list of its explicit key entries; the class default
  \<^verbatim>\<open>{ANY_KEY: SAME_TYPE}\<close> is the empty list.
\<close>

datatype json_type =
    JSON (none_as_null: bool) (index_map: "(pyval \<times> target) list")
  | JSONB (none_as_null: bool) (index_map: "(pyval \<times> target) list")
and target = SAME_TYPE | Target sqltype
and sqltype = Text | Boolean | NullType | Doc json_type

text \<open>
  Modelled from the spec: the expression nodes (classes of the expression framework,
  not in this module). "Expression: {left: Expression-or-Column, operator, right,
  result_type}": a binary expression has a \<^verbatim>\<open>left\<close>, an \<^verbatim>\<open>operator\<close>, a \<^verbatim>\<open>right\<close> and
  a \<^verbatim>\<open>type\<close>; a column has a name and a type; a bound literal has its value.
\<close>

datatype element =
    Column string sqltype
  | BindParameter pyval
  | BinaryExpression element operator element sqltype

text \<open>
  Attribute reads \<^verbatim>\<open>e.operator\<close>, \<^verbatim>\<open>e.left\<close>, \<^verbatim>\<open>e.right\<close>: only a binary expression
  carries these attributes, and reading an attribute an object does not have raises
  \<^verbatim>\<open>AttributeError\<close>.
\<close>

fun attr_operator :: "element \<Rightarrow> error + operator" where
  "attr_operator (BinaryExpression l op r t) = Inr op"
| "attr_operator (Column n t) = Inl (AttributeError ''operator'')"
| "attr_operator (BindParameter v) = Inl (AttributeError ''operator'')"

fun attr_left :: "element \<Rightarrow> error + element" where
  "attr_left (BinaryExpression l op r t) = Inr l"
| "attr_left (Column n t) = Inl (AttributeError ''left'')"
| "attr_left (BindParameter v) = Inl (AttributeError ''left'')"

fun attr_right :: "element \<Rightarrow> error + element" where
  "attr_right (BinaryExpression l op r t) = Inr r"
| "attr_right (Column n t) = Inl (AttributeError ''right'')"
| "attr_right (BindParameter v) = Inl (AttributeError ''right'')"

text \<open>A comparator holds the expression it is bound to and that expression's type.\<close>

record comparator =
  expr :: element
  ctype :: sqltype

subsection \<open>The platform\<close>

text \<open>
  What the module takes from the interpreter and the standard library, as parameters:
  the flag \<^verbatim>\<open>util.py2k\<close>, \<^verbatim>\<open>util.text_type\<close>, \<^verbatim>\<open>json.dumps\<close>, \<^verbatim>\<open>json.loads\<close> and the
  \<^verbatim>\<open>encode\<close> and \<^verbatim>\<open>decode\<close> methods of a payload. A payload on the wire is text or
  bytes.
\<close>

datatype wire = WText string | WBytes "nat list"

record runtime =
  py2k :: bool
  text_type :: "pyval \<Rightarrow> string"
  json_dumps :: "pyval \<Rightarrow> error + wire"
  json_loads :: "wire \<Rightarrow> error + pyval"
  encode :: "wire \<Rightarrow> string \<Rightarrow> error + wire"
  decode :: "wire \<Rightarrow> string \<Rightarrow> error + wire"

text \<open>
  The dialect attributes the processors read: \<^verbatim>\<open>_json_serializer\<close> and
  \<^verbatim>\<open>_json_deserializer\<close> (\<open>None\<close> when no override was given) and \<^verbatim>\<open>encoding\<close>.
\<close>

record dialect =
  json_serializer :: "(pyval \<Rightarrow> error + wire) option"
  json_deserializer :: "(wire \<Rightarrow> error + pyval) option"
  encoding :: string

text \<open>\<^verbatim>\<open>x or y\<close> on an attribute that is \<^verbatim>\<open>None\<close> or a function object.\<close>

fun py_or :: "'a option \<Rightarrow> 'a \<Rightarrow> 'a" where
  "py_or None d = d"
| "py_or (Some f) d = f"

text \<open>\<^verbatim>\<open>sep.join(parts)\<close>.\<close>

fun str_join :: "string \<Rightarrow> string list \<Rightarrow> string" where
  "str_join sep [] = []"
| "str_join sep [x] = x"
| "str_join sep (x # y # ys) = x @ sep @ str_join sep (y # ys)"

text \<open>
  \<^verbatim>\<open>isinstance(v, util.string_types)\<close> and \<^verbatim>\<open>isinstance(v, collections.Sequence)\<close>:
  text is a sequence too; lists and tuples are the other sequences among the values.
\<close>

fun is_string :: "pyval \<Rightarrow> bool" where
  "is_string (PStr s) = True"
| "is_string v = False"

fun is_sequence :: "pyval \<Rightarrow> bool" where
  "is_sequence (PStr s) = True"
| "is_sequence (PList xs) = True"
| "is_sequence (PTuple xs) = True"
| "is_sequence v = False"

text \<open>The elements \<^verbatim>\<open>for elem in index\<close> visits, for a list or a tuple.\<close>

fun elems :: "pyval \<Rightarrow> pyval list" where
  "elems (PList xs) = xs"
| "elems (PTuple xs) = xs"
| "elems (PStr s) = map (\<lambda>c. PStr [c]) s"
| "elems v = []"

subsection \<open>JSON.Comparator\<close>

text \<open>
  Modelled from the spec: \<^verbatim>\<open>operate\<close> with an explicit result type (the expression
  framework, not in this module): "Build a new Expression with the same left/right
  operands, the substituted operator, and result_type".
\<close>

definition operate :: "element \<Rightarrow> operator \<Rightarrow> element \<Rightarrow> sqltype \<Rightarrow> element" where
  "operate left op right result_type = BinaryExpression left op right result_type"

text \<open>
  Modelled from the spec: \<^verbatim>\<open>_type_for_index\<close> (\<^verbatim>\<open>Indexable.Comparator\<close>, not in this
  module): the result type is "index_map.lookup(k) else SAME_TYPE", and \<^verbatim>\<open>SAME_TYPE\<close>
  stands for the comparator's own type.
\<close>

definition type_for_index :: "comparator \<Rightarrow> pyval \<Rightarrow> sqltype" where
  "type_for_index self index =
     (case ctype self of
        Doc j \<Rightarrow>
          (case map_of (index_map j) index of
             Some (Target t) \<Rightarrow> t
           | Some SAME_TYPE \<Rightarrow> ctype self
           | None \<Rightarrow> ctype self)
      | t \<Rightarrow> t)"

text \<open>Lines 145 to 166, the property \<^verbatim>\<open>astext\<close>.\<close>

definition astext :: "comparator \<Rightarrow> error + element" where
  "astext self =
     (case attr_operator (expr self) of
        Inl e \<Rightarrow> Inl e
      | Inr against0 \<Rightarrow>
          (let against = (if is_op against0 PATHIDX then CustomOp ASTEXT_PATHIDX
                          else CustomOp ASTEXT)
           in case attr_left (expr self) of
                Inl e \<Rightarrow> Inl e
              | Inr l \<Rightarrow>
                  (case attr_right (expr self) of
                     Inl e \<Rightarrow> Inl e
                   | Inr r \<Rightarrow> Inr (operate l against r Text))))"

text \<open>
  Lines 168 to 177, \<^verbatim>\<open>_setup_getitem\<close>. The \<^verbatim>\<open>assert\<close> raises \<^verbatim>\<open>AssertionError\<close>
  on an index that is neither text nor a sequence (assertions are on, as they are
  unless the interpreter is told to strip them). On the path branch the name
  \<^verbatim>\<open>index\<close> is rebound to the rendered text before \<^verbatim>\<open>_type_for_index\<close> reads it.
\<close>

definition setup_getitem ::
  "runtime \<Rightarrow> comparator \<Rightarrow> pyval \<Rightarrow> error + (operator \<times> pyval \<times> sqltype)" where
  "setup_getitem rt self index =
     (if \<not> is_string index then
        (if \<not> is_sequence index then Inl AssertionError
         else
           (let index' = PStr (''{'' @ str_join '', '' (map (text_type rt) (elems index)) @ ''}'')
            in Inr (CustomOp PATHIDX, index', type_for_index self index')))
      else Inr (CustomOp INDEX, index, type_for_index self index))"

text \<open>
  Modelled from the spec: \<^verbatim>\<open>__getitem__\<close> (\<^verbatim>\<open>Indexable.Comparator\<close>, not in this
  module), the operation "index(key) -> Expression": it resolves the key with
  \<^verbatim>\<open>_setup_getitem\<close> and builds the expression from the receiver, the resolved operator,
  the rendered index and the resolved result type.
\<close>

definition getitem :: "runtime \<Rightarrow> comparator \<Rightarrow> pyval \<Rightarrow> error + element" where
  "getitem rt self index =
     (case setup_getitem rt self index of
        Inl e \<Rightarrow> Inl e
      | Inr (op, idx, ty) \<Rightarrow> Inr (operate (expr self) op (BindParameter idx) ty))"

subsection \<open>The bind and result processors\<close>

text \<open>
  Lines 181 to 199, \<^verbatim>\<open>bind_processor\<close>, applied to a value: \<open>Inr None\<close> is the
  processor returning \<^verbatim>\<open>None\<close> (SQL NULL is sent), \<open>Inr (Some w)\<close> a payload, \<open>Inl e\<close>
  an exception of the serializer or of \<^verbatim>\<open>encode\<close>.
\<close>

definition bind_processor ::
  "runtime \<Rightarrow> json_type \<Rightarrow> dialect \<Rightarrow> pyval \<Rightarrow> error + wire option" where
  "bind_processor rt self dialect value =
     (let serializer = py_or (json_serializer dialect) (json_dumps rt) in
      if py2k rt then
        (if value = PNull \<or> (value = PNone \<and> none_as_null self) then Inr None
         else (case serializer value of
                 Inl e \<Rightarrow> Inl e
               | Inr s \<Rightarrow>
                   (case encode rt s (encoding dialect) of
                      Inl e \<Rightarrow> Inl e
                    | Inr b \<Rightarrow> Inr (Some b))))
      else
        (if value = PNull \<or> (value = PNone \<and> none_as_null self) then Inr None
         else (case serializer value of
                 Inl e \<Rightarrow> Inl e
               | Inr s \<Rightarrow> Inr (Some s))))"

text \<open>
  Lines 201 to 215, \<^verbatim>\<open>result_processor\<close>, applied to a raw value (\<open>None\<close> is SQL
  NULL); the result is a Python value, \<open>PNone\<close> for SQL NULL.
\<close>

definition result_processor ::
  "runtime \<Rightarrow> json_type \<Rightarrow> dialect \<Rightarrow> wire option \<Rightarrow> error + pyval" where
  "result_processor rt self dialect value =
     (let deserializer = py_or (json_deserializer dialect) (json_loads rt) in
      if py2k rt then
        (case value of
           None \<Rightarrow> Inr PNone
         | Some w \<Rightarrow>
             (case decode rt w (encoding dialect) of
                Inl e \<Rightarrow> Inl e
              | Inr s \<Rightarrow> deserializer s))
      else
        (case value of
           None \<Rightarrow> Inr PNone
         | Some w \<Rightarrow> deserializer w))"

subsection \<open>JSONB.comparator_factory\<close>

text \<open>
  The names the module binds at its top level (lines 7 to 18, 22 to 39, 42, 221), the
  module's global namespace. A name a function body reads that is neither local nor
  here is looked up among the builtins, and \<^verbatim>\<open>custom_op\<close> is not a builtin: the module
  imports \<^verbatim>\<open>operators\<close> and writes \<^verbatim>\<open>operators.custom_op\<close> at lines 22 to 39, and
  never binds \<^verbatim>\<open>custom_op\<close> itself.
\<close>

definition module_globals :: "string list" where
  "module_globals =
     [''absolute_import'', ''collections'', ''json'', ''ischema_names'', ''sqltypes'',
      ''operators'', ''elements'', ''util'', ''__all__'', ''INDEX'', ''PATHIDX'',
      ''ASTEXT'', ''ASTEXT_PATHIDX'', ''JSON'', ''JSONB'']"

definition load_global :: "string \<Rightarrow> error + unit" where
  "load_global name =
     (if name \<in> set module_globals then Inr () else Inl (NameError name))"

definition membership_ops :: "string list" where
  "membership_ops = [''?'', ''?&'', ''?|'', ''@>'', ''<@'']"

text \<open>
  The adaptation rule of \<^verbatim>\<open>Concatenable.Comparator\<close> is not in this module; it is a
  parameter of the hook.
\<close>

type_synonym adapt =
  "comparator \<Rightarrow> operator \<Rightarrow> element \<Rightarrow> error + (operator \<times> sqltype)"

text \<open>
  Lines 297 to 303, the branches of \<^verbatim>\<open>_adapt_expression\<close> once the class test
  \<^verbatim>\<open>isinstance(op, custom_op)\<close> has its second argument.
\<close>

fun adapt_branches :: "adapt \<Rightarrow> comparator \<Rightarrow> operator \<Rightarrow> element \<Rightarrow> error + (operator \<times> sqltype)" where
  "adapt_branches concat_adapt self (CustomOp c) other_comparator =
     (if opstring c \<in> set membership_ops then Inr (CustomOp c, Boolean)
      else if opstring c = ''->'' then Inr (CustomOp c, Text)
      else concat_adapt self (CustomOp c) other_comparator)"
| "adapt_branches concat_adapt self (BuiltinOp f) other_comparator =
     concat_adapt self (BuiltinOp f) other_comparator"

text \<open>
  Lines 294 to 303, \<^verbatim>\<open>_adapt_expression\<close>: evaluating \<^verbatim>\<open>isinstance(op, custom_op)\<close>
  first loads the global name \<^verbatim>\<open>custom_op\<close>.
\<close>

definition adapt_expression :: "adapt \<Rightarrow> comparator \<Rightarrow> operator \<Rightarrow> element \<Rightarrow> error + (operator \<times> sqltype)" where
  "adapt_expression concat_adapt self op other_comparator =
     (case load_global ''custom_op'' of
        Inl e \<Rightarrow> Inl e
      | Inr u \<Rightarrow> adapt_branches concat_adapt self op other_comparator)"

text \<open>
  Modelled from the spec: the "apply named operator" primitive
  (\<^verbatim>\<open>self.expr.op(opstring)(other)\<close>, the expression framework, not in this module): it
  makes a new named operator (\<open>fresh\<close> is the identity of the new object), asks the
  receiver's adaptation hook for "the operator to actually use and its declared result
  type", and builds the expression from the receiver and the operand.
\<close>

definition op_apply :: "adapt \<Rightarrow> nat \<Rightarrow> comparator \<Rightarrow> string \<Rightarrow> element \<Rightarrow> error + element" where
  "op_apply concat_adapt fresh self opstr other =
     (let operator = CustomOp \<lparr>oid = fresh, opstring = opstr, precedence = 0,
                               natural_self_precedent = False\<rparr>
      in case adapt_expression concat_adapt self operator other of
           Inl e \<Rightarrow> Inl e
         | Inr (op, result_type) \<Rightarrow> Inr (BinaryExpression (expr self) op other result_type))"

text \<open>Lines 305 to 331, the five predicate builders.\<close>

definition has_key :: "adapt \<Rightarrow> nat \<Rightarrow> comparator \<Rightarrow> element \<Rightarrow> error + element" where
  "has_key concat_adapt fresh self other = op_apply concat_adapt fresh self ''?'' other"

definition has_all :: "adapt \<Rightarrow> nat \<Rightarrow> comparator \<Rightarrow> element \<Rightarrow> error + element" where
  "has_all concat_adapt fresh self other = op_apply concat_adapt fresh self ''?&'' other"

definition has_any :: "adapt \<Rightarrow> nat \<Rightarrow> comparator \<Rightarrow> element \<Rightarrow> error + element" where
  "has_any concat_adapt fresh self other = op_apply concat_adapt fresh self ''?|'' other"

definition contains :: "adapt \<Rightarrow> nat \<Rightarrow> comparator \<Rightarrow> element \<Rightarrow> error + element" where
  "contains concat_adapt fresh self other = op_apply concat_adapt fresh self ''@>'' other"

definition contained_by :: "adapt \<Rightarrow> nat \<Rightarrow> comparator \<Rightarrow> element \<Rightarrow> error + element" where
  "contained_by concat_adapt fresh self other = op_apply concat_adapt fresh self ''<@'' other"

subsection \<open>A concrete platform for the closed examples\<close>

text \<open>
  The theorems below hold for every platform. Their closed instances are evaluated on
  this one. \<open>key_text\<close> is \<^verbatim>\<open>str\<close> on \<^verbatim>\<open>None\<close>, booleans, integers and text; a float
  has no digits in this embedding and the text of a container depends on the
  interpreter's \<^verbatim>\<open>repr\<close>, so for those it gives the empty text, and no example below
  uses one as a key.
\<close>

fun nat_digits :: "nat \<Rightarrow> string" where
  "nat_digits n =
     (if n < 10 then [char_of (48 + n)]
      else nat_digits (n div 10) @ [char_of (48 + n mod 10)])"

declare nat_digits.simps [simp del]

definition int_text :: "int \<Rightarrow> string" where
  "int_text i = (if i < 0 then ''-'' @ nat_digits (nat (- i)) else nat_digits (nat i))"

fun key_text :: "pyval \<Rightarrow> string" where
  "key_text (PStr s) = s"
| "key_text (PInt i) = int_text i"
| "key_text (PBool b) = (if b then ''True'' else ''False'')"
| "key_text PNone = ''None''"
| "key_text v = []"

text \<open>
  \<^verbatim>\<open>json.dumps\<close> with its defaults (\<^verbatim>\<open>ensure_ascii\<close>, separators \<^verbatim>\<open>", "\<close> and
  \<^verbatim>\<open>": "\<close>). A character stands for a code point below 256. A float has no digits
  in this embedding and the SQL NULL construct is not serializable: neither has a text.
\<close>

definition hex_digit :: "nat \<Rightarrow> char" where
  "hex_digit n = (if n < 10 then char_of (48 + n) else char_of (87 + n))"

definition json_escape :: "char \<Rightarrow> string" where
  "json_escape c =
     (if c = CHR 0x22 then [CHR 0x5C, CHR 0x22]
      else if c = CHR 0x5C then [CHR 0x5C, CHR 0x5C]
      else if c = CHR 0x0A then [CHR 0x5C, CHR ''n'']
      else if c = CHR 0x0D then [CHR 0x5C, CHR ''r'']
      else if c = CHR 0x09 then [CHR 0x5C, CHR ''t'']
      else if c = CHR 0x08 then [CHR 0x5C, CHR ''b'']
      else if c = CHR 0x0C then [CHR 0x5C, CHR ''f'']
      else if 32 \<le> (of_char c :: nat) \<and> (of_char c :: nat) \<le> 126 then [c]
      else [CHR 0x5C, CHR ''u'', CHR ''0'', CHR ''0'',
            hex_digit ((of_char c :: nat) div 16), hex_digit ((of_char c :: nat) mod 16)])"

definition json_string :: "string \<Rightarrow> string" where
  "json_string s = [CHR 0x22] @ concat (map json_escape s) @ [CHR 0x22]"

text \<open>The text a dictionary key is written as; other keys are a \<^verbatim>\<open>TypeError\<close>.\<close>

fun json_key :: "pyval \<Rightarrow> string option" where
  "json_key (PStr s) = Some s"
| "json_key (PInt i) = Some (int_text i)"
| "json_key (PBool b) = Some (if b then ''true'' else ''false'')"
| "json_key PNone = Some ''null''"
| "json_key v = None"

fun json_text :: "pyval \<Rightarrow> string option" where
  "json_text PNone = Some ''null''"
| "json_text (PBool b) = Some (if b then ''true'' else ''false'')"
| "json_text (PInt i) = Some (int_text i)"
| "json_text (PFloat x) = None"
| "json_text (PStr s) = Some (json_string s)"
| "json_text (PList xs) =
     map_option (\<lambda>ts. ''['' @ str_join '', '' ts @ '']'') (those (map json_text xs))"
| "json_text (PTuple xs) =
     map_option (\<lambda>ts. ''['' @ str_join '', '' ts @ '']'') (those (map json_text xs))"
| "json_text (PDict kvs) =
     map_option (\<lambda>ts. ''{'' @ str_join '', '' ts @ ''}'')
       (those (map (\<lambda>kv. case json_key (fst kv) of
                            None \<Rightarrow> None
                          | Some k \<Rightarrow>
                              map_option (\<lambda>t. json_string k @ '': '' @ t)
                                (json_text (snd kv))) kvs))"
| "json_text PNull = None"

definition sample_dumps :: "pyval \<Rightarrow> error + wire" where
  "sample_dumps v =
     (case json_text v of
        None \<Rightarrow> Inl (TypeError ''not JSON serializable'')
      | Some s \<Rightarrow> Inr (WText s))"

text \<open>
  \<^verbatim>\<open>json.loads\<close>: a reader of JSON text into \<^verbatim>\<open>None\<close>, booleans, integers, text, lists
  and dictionaries. A number with a fraction or an exponent is a float and has no value
  in this embedding, and neither has an escape for a code point beyond 255. The
  recursion on nested values is bounded by the length of the text.
\<close>

definition is_ws :: "char \<Rightarrow> bool" where
  "is_ws c = (c = CHR '' '' \<or> c = CHR 0x09 \<or> c = CHR 0x0A \<or> c = CHR 0x0D)"

definition is_digit :: "char \<Rightarrow> bool" where
  "is_digit c = (48 \<le> (of_char c :: nat) \<and> (of_char c :: nat) \<le> 57)"

definition skip_ws :: "string \<Rightarrow> string" where
  "skip_ws s = dropWhile is_ws s"

definition strip_prefix :: "string \<Rightarrow> string \<Rightarrow> string option" where
  "strip_prefix p s = (if take (length p) s = p then Some (drop (length p) s) else None)"

definition hex_val :: "char \<Rightarrow> nat option" where
  "hex_val c =
     (let n = (of_char c :: nat) in
      if 48 \<le> n \<and> n \<le> 57 then Some (n - 48)
      else if 97 \<le> n \<and> n \<le> 102 then Some (n - 87)
      else if 65 \<le> n \<and> n \<le> 70 then Some (n - 55)
      else None)"

definition unescape :: "char \<Rightarrow> char option" where
  "unescape e =
     (if e = CHR 0x22 then Some (CHR 0x22)
      else if e = CHR 0x5C then Some (CHR 0x5C)
      else if e = CHR ''/'' then Some (CHR ''/'')
      else if e = CHR ''n'' then Some (CHR 0x0A)
      else if e = CHR ''r'' then Some (CHR 0x0D)
      else if e = CHR ''t'' then Some (CHR 0x09)
      else if e = CHR ''b'' then Some (CHR 0x08)
      else if e = CHR ''f'' then Some (CHR 0x0C)
      else None)"

definition hex4 :: "string \<Rightarrow> char option" where
  "hex4 hs =
     (case those (map hex_val hs) of
        Some [a, b, c, d] \<Rightarrow>
          (if a = 0 \<and> b = 0 then Some (char_of (16 * c + d)) else None)
      | _ \<Rightarrow> None)"

fun parse_string :: "string \<Rightarrow> string \<Rightarrow> (string \<times> string) option" where
  "parse_string [] acc = None"
| "parse_string (c # cs) acc =
     (if c = CHR 0x22 then Some (acc, cs)
      else if c = CHR 0x5C then
        (case cs of
           [] \<Rightarrow> None
         | e # cs' \<Rightarrow>
             (if e = CHR ''u'' then
                (case hex4 (take 4 cs') of
                   None \<Rightarrow> None
                 | Some x \<Rightarrow> parse_string (drop 4 cs') (acc @ [x]))
              else
                (case unescape e of
                   None \<Rightarrow> None
                 | Some x \<Rightarrow> parse_string cs' (acc @ [x]))))
      else if (of_char c :: nat) < 32 then None
      else parse_string cs (acc @ [c]))"

definition parse_int :: "string \<Rightarrow> (pyval \<times> string) option" where
  "parse_int s =
     (let neg = (s \<noteq> [] \<and> hd s = CHR ''-'');
          r = (if neg then tl s else s);
          ds = takeWhile is_digit r;
          rest = dropWhile is_digit r;
          n = foldl (\<lambda>a c. 10 * a + ((of_char c :: nat) - 48)) 0 ds
      in if ds = [] \<or> (1 < length ds \<and> hd ds = CHR ''0'') then None
         else if rest \<noteq> [] \<and> (hd rest = CHR ''.'' \<or> hd rest = CHR ''e'' \<or> hd rest = CHR ''E'')
           then None
         else Some (PInt (if neg then - int n else int n), rest))"

text \<open>A key read twice keeps its place and takes the later value, as a dictionary does.\<close>

fun dict_set :: "pyval \<Rightarrow> pyval \<Rightarrow> (pyval \<times> pyval) list \<Rightarrow> (pyval \<times> pyval) list" where
  "dict_set k v [] = [(k, v)]"
| "dict_set k v ((k', v') # kvs) =
     (if k = k' then (k, v) # kvs else (k', v') # dict_set k v kvs)"

fun parse_value :: "nat \<Rightarrow> string \<Rightarrow> (pyval \<times> string) option"
  and parse_elems :: "nat \<Rightarrow> string \<Rightarrow> pyval list \<Rightarrow> (pyval \<times> string) option"
  and parse_members ::
    "nat \<Rightarrow> string \<Rightarrow> (pyval \<times> pyval) list \<Rightarrow> (pyval \<times> string) option" where
  "parse_value 0 s = None"
| "parse_value (Suc n) s =
     (case skip_ws s of
        [] \<Rightarrow> None
      | c # r \<Rightarrow>
          if c = CHR ''n'' then map_option (Pair PNone) (strip_prefix ''ull'' r)
          else if c = CHR ''t'' then map_option (Pair (PBool True)) (strip_prefix ''rue'' r)
          else if c = CHR ''f'' then map_option (Pair (PBool False)) (strip_prefix ''alse'' r)
          else if c = CHR 0x22 then
            map_option (\<lambda>tr. (PStr (fst tr), snd tr)) (parse_string r [])
          else if c = CHR ''['' then
            (case skip_ws r of
               [] \<Rightarrow> None
             | d # r' \<Rightarrow> if d = CHR '']'' then Some (PList [], r')
                          else parse_elems n (d # r') [])
          else if c = CHR ''{'' then
            (case skip_ws r of
               [] \<Rightarrow> None
             | d # r' \<Rightarrow> if d = CHR ''}'' then Some (PDict [], r')
                          else parse_members n (d # r') [])
          else parse_int (c # r))"
| "parse_elems 0 s acc = None"
| "parse_elems (Suc n) s acc =
     (case parse_value n s of
        None \<Rightarrow> None
      | Some (v, r) \<Rightarrow>
          (case skip_ws r of
             [] \<Rightarrow> None
           | c # r' \<Rightarrow>
               if c = CHR '','' then parse_elems n r' (acc @ [v])
               else if c = CHR '']'' then Some (PList (acc @ [v]), r')
               else None))"
| "parse_members 0 s acc = None"
| "parse_members (Suc n) s acc =
     (case skip_ws s of
        [] \<Rightarrow> None
      | c # r \<Rightarrow>
          if c \<noteq> CHR 0x22 then None
          else
            (case parse_string r [] of
               None \<Rightarrow> None
             | Some (k, r1) \<Rightarrow>
                 (case skip_ws r1 of
                    [] \<Rightarrow> None
                  | d # r2 \<Rightarrow>
                      if d \<noteq> CHR '':'' then None
                      else
                        (case parse_value n r2 of
                           None \<Rightarrow> None
                         | Some (v, r3) \<Rightarrow>
                             (case skip_ws r3 of
                                [] \<Rightarrow> None
                              | e # r4 \<Rightarrow>
                                  if e = CHR '','' then
                                    parse_members n r4 (dict_set (PStr k) v acc)
                                  else if e = CHR ''}'' then
                                    Some (PDict (dict_set (PStr k) v acc), r4)
                                  else None)))))"

definition json_read :: "string \<Rightarrow> error + pyval" where
  "json_read s =
     (case parse_value (Suc (length s)) s of
        None \<Rightarrow> Inl (ValueError ''no JSON object could be decoded'')
      | Some (v, r) \<Rightarrow>
          if skip_ws r = [] then Inr v else Inl (ValueError ''extra data''))"

fun sample_loads :: "wire \<Rightarrow> error + pyval" where
  "sample_loads (WText s) = json_read s"
| "sample_loads (WBytes b) = json_read (map char_of b)"

fun sample_encode :: "wire \<Rightarrow> string \<Rightarrow> error + wire" where
  "sample_encode (WText s) enc = Inr (WBytes (map of_char s))"
| "sample_encode (WBytes b) enc = Inr (WBytes b)"

fun sample_decode :: "wire \<Rightarrow> string \<Rightarrow> error + wire" where
  "sample_decode (WBytes b) enc = Inr (WText (map char_of b))"
| "sample_decode (WText s) enc = Inr (WText s)"

definition py3 :: runtime where
  "py3 = \<lparr>py2k = False, text_type = key_text, json_dumps = sample_dumps,
          json_loads = sample_loads, encode = sample_encode, decode = sample_decode\<rparr>"

definition py2 :: runtime where
  "py2 = \<lparr>py2k = True, text_type = key_text, json_dumps = sample_dumps,
          json_loads = sample_loads, encode = sample_encode, decode = sample_decode\<rparr>"

text \<open>A dialect with no serializer or deserializer override.\<close>

definition plain_dialect :: dialect where
  "plain_dialect = \<lparr>json_serializer = None, json_deserializer = None, encoding = ''utf-8''\<rparr>"

text \<open>
  A column \<^verbatim>\<open>c\<close> of type \<^verbatim>\<open>JSON()\<close> and a column \<^verbatim>\<open>jb\<close> of type \<^verbatim>\<open>JSONB()\<close>, with
  their comparators.
\<close>

definition c_col :: comparator where
  "c_col = \<lparr>expr = Column ''c'' (Doc (JSON False [])), ctype = Doc (JSON False [])\<rparr>"

definition jb_col :: comparator where
  "jb_col = \<lparr>expr = Column ''jb'' (Doc (JSONB False [])), ctype = Doc (JSONB False [])\<rparr>"

text \<open>
  The path text as the specification words it: the keys' text forms, the first as it
  is and every later one after a comma and a space, inside braces.
\<close>

fun spec_path_text :: "string list \<Rightarrow> string" where
  "spec_path_text [] = ''{}''"
| "spec_path_text (k # ks) = ''{'' @ k @ concat (map (\<lambda>x. '', '' @ x) ks) @ ''}''"

text \<open>
  The scalar keys as the specification words them, "text-or-number"; a boolean is an
  integer in Python.
\<close>

fun spec_scalar :: "pyval \<Rightarrow> bool" where
  "spec_scalar (PStr s) = True"
| "spec_scalar (PInt i) = True"
| "spec_scalar (PFloat x) = True"
| "spec_scalar (PBool b) = True"
| "spec_scalar v = False"


text \<open>
  \<^verbatim>\<open>result(bind(v)) == v\<close> for the two processors of one type and dialect: binding
  raises nothing and processing what was bound gives the value back.
\<close>

definition roundtrip :: "runtime \<Rightarrow> json_type \<Rightarrow> dialect \<Rightarrow> pyval \<Rightarrow> bool" where
  "roundtrip rt self d v =
     (case bind_processor rt self d v of
        Inl e \<Rightarrow> False
      | Inr p \<Rightarrow> result_processor rt self d p = Inr v)"

section \<open>Properties\<close>

subsection \<open>Helper facts\<close>

lemma custom_op_unbound: "load_global ''custom_op'' = Inl (NameError ''custom_op'')"
  by (simp add: load_global_def module_globals_def)

lemma str_join_cons: "str_join sep (x # xs) = x @ concat (map (\<lambda>y. sep @ y) xs)"
  by (induction xs arbitrary: x) simp_all

lemma comma_space_prefix: "(@) '', '' = (\<lambda>y. CHR '','' # CHR '' '' # y)"
  by (simp add: fun_eq_iff)

lemma braces_join: "''{'' @ str_join '', '' ss @ ''}'' = spec_path_text ss"
  by (cases ss) (simp_all add: str_join_cons comma_space_prefix)

lemma setup_getitem_sequence:
  assumes "\<not> is_string index" and "is_sequence index"
  shows "setup_getitem rt self index =
           Inr (CustomOp PATHIDX,
                PStr (spec_path_text (map (text_type rt) (elems index))),
                type_for_index self (PStr (spec_path_text (map (text_type rt) (elems index)))))"
proof -
  have "''{'' @ str_join '', '' (map (text_type rt) (elems index)) @ ''}''
          = spec_path_text (map (text_type rt) (elems index))"
    by (rule braces_join)
  with assms show ?thesis
    by (simp add: setup_getitem_def Let_def)
qed

text \<open>
  A text key with no entry in the index map resolves to \<^verbatim>\<open>INDEX\<close>, the key unchanged
  and the comparator's own type.
\<close>

lemma setup_getitem_text_key:
  assumes "ctype self = Doc j" and "map_of (index_map j) (PStr k) = None"
  shows "setup_getitem rt self (PStr k) = Inr (CustomOp INDEX, PStr k, Doc j)"
  using assms by (simp add: setup_getitem_def type_for_index_def)

text \<open>
  What the branches of the adaptation hook do once the class test can be evaluated: a
  membership operator gets \<open>Boolean\<close> and is kept, and an operator that is neither a
  membership operator nor \<^verbatim>\<open>->\<close> is handed to the \<^verbatim>\<open>Concatenable\<close> rule.
\<close>

lemma adapt_branches_membership:
  assumes "opstring c \<in> set membership_ops"
  shows "adapt_branches concat_adapt self (CustomOp c) other = Inr (CustomOp c, Boolean)"
  using assms by simp

lemma adapt_branches_fall_through:
  assumes "\<And>c. op = CustomOp c \<Longrightarrow> opstring c \<notin> set membership_ops \<and> opstring c \<noteq> ''->''"
  shows "adapt_branches concat_adapt self op other = concat_adapt self op other"
  using assms by (cases op) simp_all

text \<open>
  The two processors of one type and dialect, with no override and text payloads:
  binding a value that is neither \<^verbatim>\<open>None\<close> nor the SQL NULL construct and reading the
  payload back is \<^verbatim>\<open>json.loads\<close> after \<^verbatim>\<open>json.dumps\<close>, nothing more.
\<close>

lemma processors_compose:
  assumes "\<not> py2k rt" and "json_serializer d = None" and "json_deserializer d = None"
    and "v \<noteq> PNone" and "v \<noteq> PNull" and "json_dumps rt v = Inr w"
  shows "bind_processor rt self d v = Inr (Some w)"
    and "result_processor rt self d (Some w) = json_loads rt w"
  using assms by (simp_all add: bind_processor_def result_processor_def Let_def)

text \<open>The bind processor, with the two branches of \<^verbatim>\<open>util.py2k\<close> read together.\<close>

lemma bind_processor_cases:
  "bind_processor rt self d v =
     (if v = PNull \<or> (v = PNone \<and> none_as_null self) then Inr None
      else (case py_or (json_serializer d) (json_dumps rt) v of
              Inl e \<Rightarrow> Inl e
            | Inr s \<Rightarrow>
                if py2k rt then map_sum id Some (encode rt s (encoding d))
                else Inr (Some s)))"
  by (simp add: bind_processor_def Let_def split: sum.splits)

lemma map_sum_Some_not_None: "map_sum id Some x \<noteq> Inr None"
  by (cases x) simp_all


text \<open>
  An expression built by an index operation is a binary expression on the receiver
  whose operator is \<^verbatim>\<open>INDEX\<close> or \<^verbatim>\<open>PATHIDX\<close>.
\<close>

lemma getitem_shape:
  assumes "getitem rt self index = Inr e"
  shows "\<exists>idx ty. e = BinaryExpression (expr self) (CustomOp INDEX) (BindParameter idx) ty \<or>
                   e = BinaryExpression (expr self) (CustomOp PATHIDX) (BindParameter idx) ty"
  using assms
  by (auto simp: getitem_def setup_getitem_def operate_def Let_def split: if_splits)

text \<open>
  Scenarios A and B of the specification: \<^verbatim>\<open>c["a"]\<close> and \<^verbatim>\<open>c[("a", "b")]\<close>, and
  \<^verbatim>\<open>astext\<close> on each.
\<close>

lemma scenario_A:
  "getitem py3 c_col (PStr ''a'') =
     Inr (BinaryExpression (expr c_col) (CustomOp INDEX) (BindParameter (PStr ''a''))
            (Doc (JSON False [])))"
  "astext \<lparr>expr = BinaryExpression (expr c_col) (CustomOp INDEX) (BindParameter (PStr ''a''))
                     (Doc (JSON False [])), ctype = Doc (JSON False [])\<rparr> =
     Inr (BinaryExpression (expr c_col) (CustomOp ASTEXT) (BindParameter (PStr ''a'')) Text)"
  by (simp_all add: getitem_def setup_getitem_def operate_def type_for_index_def c_col_def
      astext_def INDEX_def PATHIDX_def)

lemma scenario_B:
  "getitem py3 c_col (PTuple [PStr ''a'', PStr ''b'']) =
     Inr (BinaryExpression (expr c_col) (CustomOp PATHIDX) (BindParameter (PStr ''{a, b}''))
            (Doc (JSON False [])))"
  "astext \<lparr>expr = BinaryExpression (expr c_col) (CustomOp PATHIDX)
                     (BindParameter (PStr ''{a, b}'')) (Doc (JSON False [])),
            ctype = Doc (JSON False [])\<rparr> =
     Inr (BinaryExpression (expr c_col) (CustomOp ASTEXT_PATHIDX)
            (BindParameter (PStr ''{a, b}'')) Text)"
  by (simp_all add: getitem_def setup_getitem_def operate_def type_for_index_def c_col_def
      astext_def PATHIDX_def py3_def Let_def)


subsection \<open>Membership predicates and the adaptation hook of JSONB\<close>

text \<open>
  C1 (the code at the claim's inputs): the claim says that \<^verbatim>\<open>has_key\<close>, \<^verbatim>\<open>has_all\<close>,
  \<^verbatim>\<open>has_any\<close>, \<^verbatim>\<open>contains\<close> and \<^verbatim>\<open>contained_by\<close> on a JSONB receiver give an
  expression with the operator \<^verbatim>\<open>?\<close>, \<^verbatim>\<open>?&\<close>, \<^verbatim>\<open>?|\<close>, \<^verbatim>\<open>@>\<close>, \<^verbatim>\<open><@\<close> and
  the result type Boolean, the adaptation hook mapping each of the five operators to
  itself and Boolean. As the module is written, the hook raises \<^verbatim>\<open>NameError\<close> on each
  of the five operators, and so does each of the five builders, for every receiver and
  operand: the hook reads the name \<^verbatim>\<open>custom_op\<close>, which the module never binds.
\<close>

theorem membership_predicates_raise:
  "map (\<lambda>s. adapt_expression concat_adapt self (CustomOp (c\<lparr>opstring := s\<rparr>)) other)
     membership_ops = replicate 5 (Inl (NameError ''custom_op'')) \<and>
   has_key concat_adapt fresh self other = Inl (NameError ''custom_op'') \<and>
   has_all concat_adapt fresh self other = Inl (NameError ''custom_op'') \<and>
   has_any concat_adapt fresh self other = Inl (NameError ''custom_op'') \<and>
   contains concat_adapt fresh self other = Inl (NameError ''custom_op'') \<and>
   contained_by concat_adapt fresh self other = Inl (NameError ''custom_op'')"
  by (simp add: has_key_def has_all_def has_any_def contains_def contained_by_def
      op_apply_def adapt_expression_def custom_op_unbound membership_ops_def
      numeral_eq_Suc)

text \<open>
  C2 (the code at the claim's inputs): the claim says that the hook never raises on an
  operator that is neither a membership operator nor \<^verbatim>\<open>->\<close> and returns the result of
  the \<^verbatim>\<open>Concatenable\<close> rule. As the module is written, \<^verbatim>\<open>_adapt_expression\<close> raises
  \<^verbatim>\<open>NameError\<close> on every operator, before any branch is taken and whatever the
  \<^verbatim>\<open>Concatenable\<close> rule would return.
\<close>

theorem adapt_expression_raises:
  "adapt_expression concat_adapt self op other = Inl (NameError ''custom_op'')"
  by (simp add: adapt_expression_def custom_op_unbound)

subsection \<open>Operator constants\<close>

text \<open>
  C3 (as the source has it): the four operator constants have the symbols \<^verbatim>\<open>->\<close>,
  \<^verbatim>\<open>#>\<close>, \<^verbatim>\<open>->>\<close> and \<^verbatim>\<open>#>>\<close>, all four have precedence 5, and all four have the
  self-precedent flag set.
\<close>

theorem operator_constants:
  "opstring INDEX = ''->'' \<and> opstring PATHIDX = ''#>'' \<and>
   opstring ASTEXT = ''->>'' \<and> opstring ASTEXT_PATHIDX = ''#>>'' \<and>
   precedence INDEX = 5 \<and> precedence PATHIDX = 5 \<and>
   precedence ASTEXT = 5 \<and> precedence ASTEXT_PATHIDX = 5 \<and>
   natural_self_precedent INDEX \<and> natural_self_precedent PATHIDX \<and>
   natural_self_precedent ASTEXT \<and> natural_self_precedent ASTEXT_PATHIDX"
  by (simp add: INDEX_def PATHIDX_def ASTEXT_def ASTEXT_PATHIDX_def)

text \<open>
  C3 as the specification words it also says that \<^verbatim>\<open>ASTEXT\<close> and \<^verbatim>\<open>ASTEXT_PATHIDX\<close> do
  not have the self-precedent flag set. Both are created with
  \<^verbatim>\<open>natural_self_precedent=True\<close>, so that part is false.
\<close>

theorem astext_not_self_precedent_counterexample:
  "\<not> (\<not> natural_self_precedent ASTEXT \<and> \<not> natural_self_precedent ASTEXT_PATHIDX)"
  by (simp add: ASTEXT_def ASTEXT_PATHIDX_def)

subsection \<open>Index resolution\<close>

text \<open>
  C4 (the code at the claim's inputs): the claim says that a scalar key, text or
  number, with no entry in the index map resolves to the operator \<^verbatim>\<open>INDEX\<close>, the key
  unchanged and the column's own type. For a text key the code does so (lemma
  \<open>setup_getitem_text_key\<close>). For a number it does not: an integer or a float key is
  not text, so it is sent to the path branch, where the assertion that the key is a
  sequence fails. Neither \<^verbatim>\<open>_setup_getitem\<close> nor the index operation built on it gives
  a result, although the docstring of the constructor (lines 128 and 129) names
  \<^verbatim>\<open>col[5]\<close> as an expression of the getitem operator.
\<close>

theorem numeric_key_raises:
  "setup_getitem rt self (PInt n) = Inl AssertionError \<and>
   setup_getitem rt self (PFloat x) = Inl AssertionError \<and>
   getitem rt self (PInt n) = Inl AssertionError \<and>
   getitem rt self (PFloat x) = Inl AssertionError"
  by (simp add: setup_getitem_def getitem_def)

text \<open>
  C5 (as the source has it): for every index key that is neither a scalar nor a
  sequence (\<^verbatim>\<open>None\<close>, a mapping), index resolution fails at once, on the assertion
  that a key which is not text is a sequence, and no expression is built. The empty
  sequence is not such a key: it resolves to \<^verbatim>\<open>PATHIDX\<close> with the rendered index
  \<^verbatim>\<open>{}\<close>.
\<close>

theorem setup_getitem_rejects:
  "\<not> spec_scalar index \<Longrightarrow> \<not> is_sequence index \<Longrightarrow>
   setup_getitem rt self index = Inl AssertionError \<and>
   getitem rt self index = Inl AssertionError \<and>
   setup_getitem rt self (PTuple []) =
     Inr (CustomOp PATHIDX, PStr ''{}'', type_for_index self (PStr ''{}''))"
  by (cases index) (simp_all add: setup_getitem_def getitem_def Let_def)

theorem setup_getitem_rejects_witness:
  "\<not> spec_scalar (PDict [(PStr ''a'', PInt 1)]) \<and>
   \<not> is_sequence (PDict [(PStr ''a'', PInt 1)]) \<and>
   setup_getitem py3 c_col (PDict [(PStr ''a'', PInt 1)]) = Inl AssertionError \<and>
   getitem py3 c_col (PDict [(PStr ''a'', PInt 1)]) = Inl AssertionError \<and>
   \<not> spec_scalar PNone \<and> \<not> is_sequence PNone \<and>
   getitem py3 c_col PNone = Inl AssertionError \<and>
   setup_getitem py3 c_col (PTuple []) =
     Inr (CustomOp PATHIDX, PStr ''{}'', Doc (JSON False []))"
  using setup_getitem_rejects [of "PDict [(PStr ''a'', PInt 1)]" py3 c_col]
    setup_getitem_rejects [of PNone py3 c_col]
  by (simp add: c_col_def type_for_index_def)

text \<open>
  C5 as the specification words it says that the empty sequence is rejected and that
  no expression comes out. Indexing the column with the empty tuple builds the
  expression \<^verbatim>\<open>c #> '{}'\<close>.
\<close>

theorem empty_path_counterexample:
  "setup_getitem py3 c_col (PTuple []) =
     Inr (CustomOp PATHIDX, PStr ''{}'', Doc (JSON False [])) \<and>
   getitem py3 c_col (PTuple []) =
     Inr (BinaryExpression (Column ''c'' (Doc (JSON False []))) (CustomOp PATHIDX)
            (BindParameter (PStr ''{}'')) (Doc (JSON False [])))"
  by (simp add: setup_getitem_def getitem_def operate_def type_for_index_def c_col_def)

text \<open>
  C6: for every non-empty sequence of keys, given as a tuple or as a list, indexing
  resolves to the operator \<^verbatim>\<open>PATHIDX\<close>, and the rendered index is the text of the
  keys, comma-space separated, inside braces.
\<close>

theorem setup_getitem_path:
  "ks \<noteq> [] \<Longrightarrow>
   setup_getitem rt self (PTuple ks) =
     Inr (CustomOp PATHIDX, PStr (spec_path_text (map (text_type rt) ks)),
          type_for_index self (PStr (spec_path_text (map (text_type rt) ks)))) \<and>
   setup_getitem rt self (PList ks) =
     Inr (CustomOp PATHIDX, PStr (spec_path_text (map (text_type rt) ks)),
          type_for_index self (PStr (spec_path_text (map (text_type rt) ks))))"
  using setup_getitem_sequence [of "PTuple ks" rt self]
    setup_getitem_sequence [of "PList ks" rt self]
  by simp

theorem setup_getitem_path_witness:
  "[PStr ''a'', PStr ''b''] \<noteq> [] \<and>
   setup_getitem py3 c_col (PTuple [PStr ''a'', PStr ''b'']) =
     Inr (CustomOp PATHIDX, PStr ''{a, b}'', Doc (JSON False [])) \<and>
   setup_getitem py3 c_col (PList [PStr ''a'', PStr ''b'']) =
     Inr (CustomOp PATHIDX, PStr ''{a, b}'', Doc (JSON False []))"
  using setup_getitem_path [of "[PStr ''a'', PStr ''b'']" py3 c_col]
  by (simp add: py3_def c_col_def type_for_index_def)

subsection \<open>Text coercion\<close>

text \<open>
  C7: on an expression whose operator is \<^verbatim>\<open>INDEX\<close>, \<^verbatim>\<open>astext\<close> builds the expression
  with the same left and right operands, the operator \<^verbatim>\<open>ASTEXT\<close> and the type Text; on
  one whose operator is \<^verbatim>\<open>PATHIDX\<close>, the same with the operator \<^verbatim>\<open>ASTEXT_PATHIDX\<close>.
  These are the expressions an index operation produces.
\<close>

theorem astext_substitutes:
  "astext \<lparr>expr = BinaryExpression l (CustomOp INDEX) r t, ctype = ty\<rparr> =
     Inr (BinaryExpression l (CustomOp ASTEXT) r Text) \<and>
   astext \<lparr>expr = BinaryExpression l (CustomOp PATHIDX) r t, ctype = ty\<rparr> =
     Inr (BinaryExpression l (CustomOp ASTEXT_PATHIDX) r Text)"
  by (simp add: astext_def operate_def INDEX_def PATHIDX_def)

text \<open>
  C10 (as the source has it): \<^verbatim>\<open>astext\<close> does not check that its receiver came from
  an index operation. On every binary expression whose operator is not the object
  \<^verbatim>\<open>PATHIDX\<close> it does not raise and substitutes \<^verbatim>\<open>ASTEXT\<close>, keeping the left and
  right operands and giving the type Text. A bare column has no \<^verbatim>\<open>operator\<close>
  attribute to read: on it \<^verbatim>\<open>astext\<close> raises \<^verbatim>\<open>AttributeError\<close>.
\<close>

theorem astext_catch_all:
  "\<not> is_op op PATHIDX \<Longrightarrow>
   astext \<lparr>expr = BinaryExpression l op r t, ctype = ty\<rparr> =
     Inr (BinaryExpression l (CustomOp ASTEXT) r Text) \<and>
   astext \<lparr>expr = Column n t, ctype = ty\<rparr> = Inl (AttributeError ''operator'')"
  by (simp add: astext_def operate_def)

theorem astext_catch_all_witness:
  "\<not> is_op (BuiltinOp ''eq'') PATHIDX \<and>
   astext \<lparr>expr = BinaryExpression (Column ''c'' Text) (BuiltinOp ''eq'')
                    (BindParameter (PStr ''x'')) Boolean, ctype = Boolean\<rparr> =
     Inr (BinaryExpression (Column ''c'' Text) (CustomOp ASTEXT)
            (BindParameter (PStr ''x'')) Text) \<and>
   astext \<lparr>expr = Column ''c'' Boolean, ctype = Boolean\<rparr> =
     Inl (AttributeError ''operator'')"
  using astext_catch_all [of "BuiltinOp ''eq''" "Column ''c'' Text"
      "BindParameter (PStr ''x'')" Boolean Boolean "''c''"]
  by simp

text \<open>
  C10 as the specification words it says that \<^verbatim>\<open>astext\<close> on a bare column does not
  raise and gives a Text expression. On the column \<^verbatim>\<open>c\<close> it raises
  \<^verbatim>\<open>AttributeError\<close>.
\<close>

theorem astext_bare_column_counterexample:
  "astext c_col = Inl (AttributeError ''operator'')"
  by (simp add: astext_def c_col_def)

subsection \<open>The bind processor\<close>

text \<open>
  C8: the bind processor returns \<^verbatim>\<open>None\<close> when the value is the SQL NULL construct,
  or is \<^verbatim>\<open>None\<close> while \<^verbatim>\<open>none_as_null\<close> is set. On every other value, \<^verbatim>\<open>None\<close> with
  \<^verbatim>\<open>none_as_null\<close> unset included, it never returns \<^verbatim>\<open>None\<close>: it returns what the
  serializer gives for the value, the dialect's override when there is one and
  \<^verbatim>\<open>json.dumps\<close> otherwise (under \<^verbatim>\<open>py2k\<close>, that payload encoded with the dialect's
  encoding).
\<close>

theorem bind_processor_null_policy:
  "(v = PNull \<or> (v = PNone \<and> none_as_null self) \<longrightarrow>
      bind_processor rt self d v = Inr None) \<and>
   (v \<noteq> PNull \<and> \<not> (v = PNone \<and> none_as_null self) \<longrightarrow>
      bind_processor rt self d v \<noteq> Inr None \<and>
      (json_serializer d = None \<and> \<not> py2k rt \<longrightarrow>
         bind_processor rt self d v = map_sum id Some (json_dumps rt v)) \<and>
      (json_serializer d = Some f \<and> \<not> py2k rt \<longrightarrow>
         bind_processor rt self d v = map_sum id Some (f v)) \<and>
      (json_serializer d = None \<and> py2k rt \<longrightarrow>
         bind_processor rt self d v =
           (case json_dumps rt v of
              Inl e \<Rightarrow> Inl e
            | Inr s \<Rightarrow> map_sum id Some (encode rt s (encoding d)))) \<and>
      (json_serializer d = Some f \<and> py2k rt \<longrightarrow>
         bind_processor rt self d v =
           (case f v of
              Inl e \<Rightarrow> Inl e
            | Inr s \<Rightarrow> map_sum id Some (encode rt s (encoding d)))))"
proof (cases "json_serializer d")
  case None
  then show ?thesis
    by (cases "json_dumps rt v")
      (simp_all add: bind_processor_cases map_sum_Some_not_None)
next
  case (Some g)
  then show ?thesis
    by (cases "g v")
      (auto simp: bind_processor_cases map_sum_Some_not_None)
qed


theorem bind_processor_null_policy_witness:
  "none_as_null (JSON True []) \<and>
   bind_processor py3 (JSON True []) plain_dialect PNone = Inr None \<and>
   bind_processor py3 (JSON False []) plain_dialect PNull = Inr None \<and>
   \<not> none_as_null (JSON False []) \<and> json_serializer plain_dialect = None \<and> \<not> py2k py3 \<and>
   bind_processor py3 (JSON False []) plain_dialect PNone = Inr (Some (WText ''null'')) \<and>
   bind_processor py3 (JSON False [])
     (plain_dialect\<lparr>json_serializer := Some (\<lambda>v. Inr (WText ''NULL''))\<rparr>) PNone =
     Inr (Some (WText ''NULL'')) \<and>
   py2k py2 \<and>
   bind_processor py2 (JSON False []) plain_dialect PNone =
     Inr (Some (WBytes [110, 117, 108, 108]))"
  using bind_processor_null_policy [of PNone "JSON True []" py3 plain_dialect]
    bind_processor_null_policy [of PNull "JSON False []" py3 plain_dialect]
    bind_processor_null_policy [of PNone "JSON False []" py3 plain_dialect]
    bind_processor_null_policy [of PNone "JSON False []" py3
      "plain_dialect\<lparr>json_serializer := Some (\<lambda>v. Inr (WText ''NULL''))\<rparr>"
      "\<lambda>v. Inr (WText ''NULL'')"]
    bind_processor_null_policy [of PNone "JSON False []" py2 plain_dialect]
  by (simp add: py3_def py2_def plain_dialect_def sample_dumps_def)

subsection \<open>Round trip through the two processors\<close>

text \<open>
  Whatever the serializer, it cannot be undone on a tuple and on the list of the same
  elements at once when it writes the two alike, as a JSON encoder does.
\<close>

lemma tuple_and_list_not_both:
  assumes "py_or (json_serializer d) (json_dumps rt) (PTuple xs) =
           py_or (json_serializer d) (json_dumps rt) (PList xs)"
  shows "\<not> (roundtrip rt self d (PTuple xs) \<and> roundtrip rt self d (PList xs))"
  using assms
  by (auto simp: roundtrip_def bind_processor_cases split: sum.splits if_splits)




end
